theory Spec2Isabelle
  imports Complex_Main
begin

section \<open>Polymarket maker bot (paper trader): model of \<open>bot.py\<close>\<close>

text \<open>
  Prices, money amounts and epoch times are Python floats in the source. They are modelled
  as rationals with exact arithmetic: a decimal literal such as \<open>0.92\<close> is the rational
  \<open>92/100\<close>, comparisons are the source's comparisons, and \<open>round(x, 4)\<close> is rounding to
  the nearest multiple of \<open>1/10000\<close> with ties going to the even neighbour. The binary
  representation error of floats is not modelled, and every price is a finite number.
\<close>

subsection \<open>Configuration (the module-level constants)\<close>

record config =
  WINDOW_SECONDS :: rat
  SIGNAL_OFFSET :: rat
  MIN_MOVE_USD :: rat
  ENTRY_PRICE :: rat
  ORDER_SIZE_USD :: rat
  MAKER_REBATE :: rat
  INITIAL_BALANCE :: rat

text \<open>The values written in the source.\<close>

definition source_config :: config where
  "source_config =
     \<lparr>WINDOW_SECONDS = 300, SIGNAL_OFFSET = 10, MIN_MOVE_USD = 5, ENTRY_PRICE = 92 / 100,
      ORDER_SIZE_USD = 10, MAKER_REBATE = 5 / 1000, INITIAL_BALANCE = 100\<rparr>"

datatype error = ZeroDivisionError | TypeError

subsection \<open>Rounding\<close>

text \<open>Python's \<open>round(x)\<close> to an integer: nearest, ties to even.\<close>

definition round_half_even :: "rat \<Rightarrow> int" where
  "round_half_even x =
     (let f = \<lfloor>x\<rfloor>; d = x - of_int f
      in if d < 1 / 2 then f else if 1 / 2 < d then f + 1 else if even f then f else f + 1)"

text \<open>\<open>round(x, 4)\<close>.\<close>

definition round4 :: "rat \<Rightarrow> rat" where
  "round4 x = of_int (round_half_even (x * 10000)) / 10000"

text \<open>An amount with at most four decimal places.\<close>

definition on_grid4 :: "rat \<Rightarrow> bool" where
  "on_grid4 x = (of_int \<lfloor>x * 10000\<rfloor> = x * 10000)"

subsection \<open>Decision and settlement (the body of \<open>market_loop\<close>)\<close>

datatype direction = UP | DOWN | NONE

datatype outcome = WIN | LOSS | SKIP

text \<open>
  Lines 155--179: \<open>move = btc_at_signal - btc_open\<close>; the branch \<open>abs(move) < MIN_MOVE_USD\<close>
  is the skip branch, which records \<open>direction_bet = "NONE"\<close>; otherwise
  \<open>direction = "UP" if move > 0 else "DOWN"\<close>.
\<close>

definition decide :: "rat \<Rightarrow> rat \<Rightarrow> rat \<Rightarrow> direction" where
  "decide btc_open btc_at_signal min_move =
     (let move = btc_at_signal - btc_open
      in if \<bar>move\<bar> < min_move then NONE else if 0 < move then UP else DOWN)"

text \<open>Lines 189--197.\<close>

definition settle_outcome :: "direction \<Rightarrow> rat \<Rightarrow> rat \<Rightarrow> outcome" where
  "settle_outcome dir btc_open btc_close =
     (let actual = (if btc_open < btc_close then UP else DOWN)
      in if btc_close = btc_open then LOSS else if actual = dir then WIN else LOSS)"

text \<open>
  Line 180, \<open>shares = ORDER_SIZE_USD / ENTRY_PRICE\<close>, raises \<open>ZeroDivisionError\<close> for a zero
  entry price.
\<close>

definition shares_of :: "rat \<Rightarrow> rat \<Rightarrow> error + rat" where
  "shares_of order_size entry =
     (if entry = 0 then Inl ZeroDivisionError else Inr (order_size / entry))"

text \<open>Lines 199--203.\<close>

definition settle_pnl :: "outcome \<Rightarrow> rat \<Rightarrow> rat \<Rightarrow> rat \<Rightarrow> rat \<Rightarrow> rat" where
  "settle_pnl out shares order_size entry rebate =
     (if out = WIN then round4 (shares * (1 - entry) + rebate)
      else round4 (- order_size + rebate))"

subsection \<open>Window alignment\<close>

text \<open>
  Python's float \<open>a % b\<close>: the remainder has the sign of \<open>b\<close>; a zero divisor raises
  \<open>ZeroDivisionError\<close>.
\<close>

definition py_fmod :: "rat \<Rightarrow> rat \<Rightarrow> error + rat" where
  "py_fmod a b = (if b = 0 then Inl ZeroDivisionError else Inr (a - b * of_int \<lfloor>a / b\<rfloor>))"

text \<open>Lines 96--99, with \<open>now = time.time()\<close> passed in.\<close>

definition next_window_start :: "config \<Rightarrow> rat \<Rightarrow> error + rat" where
  "next_window_start cfg now =
     (case py_fmod now (WINDOW_SECONDS cfg) of
        Inl e \<Rightarrow> Inl e
      | Inr r \<Rightarrow> Inr (now - r + WINDOW_SECONDS cfg))"


subsection \<open>Database\<close>

text \<open>
  \<open>fmt_ts\<close> renders an epoch time as UTC text with whole seconds: the epoch is rounded to
  microseconds (ties to even) and the fraction of a second is dropped. The model keeps the
  resulting count of whole seconds; its rendering as \<open>%Y-%m-%d %H:%M:%S\<close> is not expanded.
  Clock readings are within the years \<open>datetime\<close> can represent.
\<close>

definition fmt_ts :: "rat \<Rightarrow> int" where
  "fmt_ts epoch = round_half_even (epoch * 1000000) div 1000000"

text \<open>A row of table \<open>trades\<close>; the autoincremented \<open>id\<close> is the position in the list.\<close>

record trade =
  timestamp :: int
  window_start :: int
  window_end :: int
  btc_open :: rat
  btc_at_signal :: rat
  btc_close :: rat
  direction_bet :: direction
  entry_price :: rat
  outcome :: outcome
  pnl :: rat
  balance_after :: rat

text \<open>
  The database file: table \<open>trades\<close> in insertion order and table \<open>state\<close>, keyed by its
  primary key. A missing file or table is the empty table (\<open>CREATE TABLE IF NOT EXISTS\<close>).
  The text stored under a key is \<open>str\<close> of a float and is read back with \<open>float\<close>; the
  model stores the number.
\<close>

record db =
  trades :: "trade list"
  state :: "string \<rightharpoonup> rat"

definition empty_db :: db where
  "empty_db = \<lparr>trades = [], state = Map.empty\<rparr>"

text \<open>Lines 44--73.\<close>

definition init_db :: "config \<Rightarrow> db \<Rightarrow> db" where
  "init_db cfg d =
     (case state d ''balance'' of
        None \<Rightarrow> d\<lparr>state := (state d)(''balance'' \<mapsto> INITIAL_BALANCE cfg)\<rparr>
      | Some v \<Rightarrow> d)"

text \<open>Lines 76--77: \<open>fetchone()[0]\<close> raises \<open>TypeError\<close> when there is no row.\<close>

definition get_balance :: "db \<Rightarrow> error + rat" where
  "get_balance d = (case state d ''balance'' of None \<Rightarrow> Inl TypeError | Some v \<Rightarrow> Inr v)"

text \<open>Lines 80--82: an \<open>UPDATE\<close> changes the row only if it exists; then commit.\<close>

definition set_balance :: "db \<Rightarrow> rat \<Rightarrow> db" where
  "set_balance d bal =
     (case state d ''balance'' of
        None \<Rightarrow> d
      | Some v \<Rightarrow> d\<lparr>state := (state d)(''balance'' \<mapsto> bal)\<rparr>)"

text \<open>Lines 85--92: an \<open>INSERT\<close>; then commit.\<close>

definition record_trade :: "db \<Rightarrow> trade \<Rightarrow> db" where
  "record_trade d r = d\<lparr>trades := trades d @ [r]\<rparr>"

subsection \<open>Committed writes and interruption\<close>

text \<open>
  Each of \<open>set_balance\<close> and \<open>record_trade\<close> ends with its own \<open>con.commit()\<close>, so each is
  one committed write. A sequence of committed writes interrupted after \<open>k\<close> of them leaves
  the file as the first \<open>k\<close> writes made it.
\<close>

type_synonym db_write = "db \<Rightarrow> db"

definition durable_after :: "nat \<Rightarrow> db_write list \<Rightarrow> db \<Rightarrow> db" where
  "durable_after k ws d = fold (\<lambda>w c. w c) (take k ws) d"

definition commit_all :: "db_write list \<Rightarrow> db \<Rightarrow> db" where
  "commit_all ws d = durable_after (length ws) ws d"

text \<open>Lines 206 and 211--223: the two writes of a settled bet, in the source's order.\<close>

definition settlement_writes :: "rat \<Rightarrow> trade \<Rightarrow> db_write list" where
  "settlement_writes bal r = [\<lambda>c. set_balance c bal, \<lambda>c. record_trade c r]"

text \<open>
  The store shows both changes of a settlement (new balance and appended record) or
  neither of them.
\<close>

definition both_or_neither :: "db \<Rightarrow> rat \<Rightarrow> trade \<Rightarrow> db \<Rightarrow> bool" where
  "both_or_neither d bal r d' =
     ((state d' ''balance'' = Some bal \<and> trades d' = trades d @ [r]) \<or>
      (state d' ''balance'' = state d ''balance'' \<and> trades d' = trades d))"

subsection \<open>The main loop\<close>

text \<open>
  The state the loop carries: the connection's database and the local \<open>balance\<close> of \<open>run\<close>.
\<close>

record bot =
  con :: db
  balance :: rat

text \<open>
  What one iteration of \<open>while True\<close> reads from its environment: the clock at line 98,
  \<open>latest_price\<close> at lines 144, 154 and 188 (the last one is read only when a bet was
  placed), and the clock when the record's timestamp is taken (line 161 or 212). The sleeps
  between the reads decide when the reads happen and nothing else. The loop starts only
  after \<open>latest_price\<close> has been set, so every read is a number.
\<close>

record observation =
  t_loop :: rat
  p_open :: rat
  p_signal :: rat
  p_close :: rat
  t_record :: rat

text \<open>Lines 188--223 without the writes: the new balance and the row of a settled bet.\<close>

definition settlement :: "config \<Rightarrow> observation \<Rightarrow> rat \<Rightarrow> direction \<Rightarrow> rat \<Rightarrow> rat \<Rightarrow> rat \<times> trade" where
  "settlement cfg ob ws_epoch dir shares bal =
     (let out = settle_outcome dir (p_open ob) (p_close ob);
          pl = settle_pnl out shares (ORDER_SIZE_USD cfg) (ENTRY_PRICE cfg) (MAKER_REBATE cfg);
          bal' = round4 (bal + pl)
      in (bal',
          \<lparr>timestamp = fmt_ts (t_record ob), window_start = fmt_ts ws_epoch,
           window_end = fmt_ts (ws_epoch + WINDOW_SECONDS cfg), btc_open = p_open ob,
           btc_at_signal = p_signal ob, btc_close = p_close ob, direction_bet = dir,
           entry_price = ENTRY_PRICE cfg, outcome = out, pnl = pl, balance_after = bal'\<rparr>))"

text \<open>Lines 160--172: the row of a skipped window.\<close>

definition skip_record :: "config \<Rightarrow> observation \<Rightarrow> rat \<Rightarrow> rat \<Rightarrow> trade" where
  "skip_record cfg ob ws_epoch bal =
     \<lparr>timestamp = fmt_ts (t_record ob), window_start = fmt_ts ws_epoch,
      window_end = fmt_ts (ws_epoch + WINDOW_SECONDS cfg), btc_open = p_open ob,
      btc_at_signal = p_signal ob, btc_close = p_signal ob, direction_bet = NONE,
      entry_price = 0, outcome = SKIP, pnl = 0, balance_after = bal\<rparr>"

text \<open>One iteration of \<open>while True\<close> in \<open>market_loop\<close> (lines 136--223).\<close>

definition market_window :: "config \<Rightarrow> observation \<Rightarrow> bot \<Rightarrow> error + bot" where
  "market_window cfg ob s =
     (case next_window_start cfg (t_loop ob) of
        Inl e \<Rightarrow> Inl e
      | Inr ws_epoch \<Rightarrow>
          (let dir = decide (p_open ob) (p_signal ob) (MIN_MOVE_USD cfg)
           in if dir = NONE
              then Inr (s\<lparr>con := record_trade (con s) (skip_record cfg ob ws_epoch (balance s))\<rparr>)
              else
                (case shares_of (ORDER_SIZE_USD cfg) (ENTRY_PRICE cfg) of
                   Inl e \<Rightarrow> Inl e
                 | Inr shares \<Rightarrow>
                     (let (bal', r) = settlement cfg ob ws_epoch dir shares (balance s)
                      in Inr \<lparr>con = commit_all (settlement_writes bal' r) (con s),
                              balance = bal'\<rparr>))))"

text \<open>
  The loop never ends by itself; a run is followed through the iterations of a finite list
  of observations and stops at the first exception.
\<close>

fun market_loop :: "config \<Rightarrow> observation list \<Rightarrow> bot \<Rightarrow> error + bot" where
  "market_loop cfg [] s = Inr s"
| "market_loop cfg (ob # obs) s =
     (case market_window cfg ob s of Inl e \<Rightarrow> Inl e | Inr s' \<Rightarrow> market_loop cfg obs s')"

text \<open>Lines 107--110: \<open>run\<close> opens the database and reads the balance.\<close>

definition startup :: "config \<Rightarrow> db \<Rightarrow> error + bot" where
  "startup cfg d =
     (let c = init_db cfg d
      in case get_balance c of Inl e \<Rightarrow> Inl e | Inr b \<Rightarrow> Inr \<lparr>con = c, balance = b\<rparr>)"

definition run :: "config \<Rightarrow> db \<Rightarrow> observation list \<Rightarrow> error + bot" where
  "run cfg d obs = (case startup cfg d of Inl e \<Rightarrow> Inl e | Inr s \<Rightarrow> market_loop cfg obs s)"



text \<open>The loop invariant: the stored balance is the local \<open>balance\<close>.\<close>

definition synced :: "bot \<Rightarrow> bool" where
  "synced s = (state (con s) ''balance'' = Some (balance s))"


subsection \<open>Example inputs\<close>

text \<open>
  Three windows under the source's configuration: a move of 10 up that closes higher, a move
  of 2 (below the threshold), and a move of 10 down that closes flat.
\<close>

definition example_win :: observation where
  "example_win = \<lparr>t_loop = 1000, p_open = 50000, p_signal = 50010, p_close = 50050, t_record = 1500\<rparr>"

definition example_skip :: observation where
  "example_skip = \<lparr>t_loop = 1501, p_open = 50000, p_signal = 50002, p_close = 50040, t_record = 2090\<rparr>"

definition example_flat :: observation where
  "example_flat = \<lparr>t_loop = 2101, p_open = 50000, p_signal = 49990, p_close = 50000, t_record = 2700\<rparr>"

definition example_obs :: "observation list" where
  "example_obs = [example_win, example_skip, example_flat]"

definition example_db :: db where
  "example_db = init_db source_config empty_db"

definition example_settlement :: "rat \<times> trade" where
  "example_settlement = settlement source_config example_win 1200 UP (10 / (92 / 100)) 100"



section \<open>Properties\<close>

subsection \<open>Rounding\<close>


lemma on_grid4_iff: "on_grid4 x = (\<exists>k::int. x * 10000 = of_int k)"
  unfolding on_grid4_def
proof
  assume "of_int \<lfloor>x * 10000\<rfloor> = x * 10000"
  then show "\<exists>k::int. x * 10000 = of_int k" by metis
next
  assume "\<exists>k::int. x * 10000 = of_int k"
  then obtain k :: int where "x * 10000 = of_int k" ..
  then show "of_int \<lfloor>x * 10000\<rfloor> = x * 10000" by simp
qed

lemma on_grid4_round4: "on_grid4 (round4 x)"
  by (simp add: on_grid4_iff round4_def)



lemma on_grid4_settle_pnl: "on_grid4 (settle_pnl out sh os en rb)"
  by (simp add: settle_pnl_def on_grid4_round4)




subsection \<open>The loop\<close>

lemma durable_after_settlement:
  "durable_after 0 (settlement_writes bal r) d = d"
  "durable_after (Suc 0) (settlement_writes bal r) d = set_balance d bal"
  "durable_after (Suc (Suc k)) (settlement_writes bal r) d = record_trade (set_balance d bal) r"
  by (simp_all add: durable_after_def settlement_writes_def)

lemma commit_all_settlement:
  "commit_all (settlement_writes bal r) d = record_trade (set_balance d bal) r"
  by (simp add: commit_all_def durable_after_def settlement_writes_def)

lemma settle_outcome_not_skip: "settle_outcome dir a b \<noteq> SKIP"
  by (simp add: settle_outcome_def Let_def)

lemma market_window_skip:
  assumes "next_window_start cfg (t_loop ob) = Inr ws_epoch"
    and "decide (p_open ob) (p_signal ob) (MIN_MOVE_USD cfg) = NONE"
  shows "market_window cfg ob s =
           Inr (s\<lparr>con := record_trade (con s) (skip_record cfg ob ws_epoch (balance s))\<rparr>)"
  using assms by (simp add: market_window_def)

lemma market_window_bet:
  assumes "next_window_start cfg (t_loop ob) = Inr ws_epoch"
    and "decide (p_open ob) (p_signal ob) (MIN_MOVE_USD cfg) = dir" and "dir \<noteq> NONE"
    and "shares_of (ORDER_SIZE_USD cfg) (ENTRY_PRICE cfg) = Inr shares"
    and "settlement cfg ob ws_epoch dir shares (balance s) = (bal', r)"
  shows "market_window cfg ob s =
           Inr \<lparr>con = record_trade (set_balance (con s) bal') r, balance = bal'\<rparr>"
  using assms by (simp add: market_window_def commit_all_settlement)

lemma settlement_fields:
  assumes "settlement cfg ob ws_epoch dir shares bal = (bal', r)"
  shows "balance_after r = bal'" and "bal' = round4 (bal + pnl r)" and "on_grid4 (pnl r)"
    and "outcome r \<noteq> SKIP"
  using assms
  by (auto simp add: settlement_def Let_def on_grid4_settle_pnl settle_outcome_not_skip)

lemma market_window_step:
  assumes "market_window cfg ob s = Inr s'" and "synced s"
  shows "\<exists>r. trades (con s') = trades (con s) @ [r] \<and> balance_after r = balance s' \<and>
             on_grid4 (pnl r) \<and>
             (outcome r = SKIP \<longrightarrow> pnl r = 0 \<and> balance s' = balance s) \<and>
             (outcome r \<noteq> SKIP \<longrightarrow> balance s' = round4 (balance s + pnl r)) \<and> synced s'"
proof -
  from assms(1) obtain ws_epoch where ws: "next_window_start cfg (t_loop ob) = Inr ws_epoch"
    by (auto simp: market_window_def split: sum.splits)
  show ?thesis
  proof (cases "decide (p_open ob) (p_signal ob) (MIN_MOVE_USD cfg) = NONE")
    case True
    define r where "r = skip_record cfg ob ws_epoch (balance s)"
    from market_window_skip [OF ws True, of s] assms(1)
    have s': "s' = s\<lparr>con := record_trade (con s) r\<rparr>"
      by (simp add: r_def)
    have "trades (con s') = trades (con s) @ [r]"
      by (simp add: s' record_trade_def)
    moreover have "balance_after r = balance s'" and "pnl r = 0" and "balance s' = balance s"
      and "outcome r = SKIP"
      by (simp_all add: s' r_def skip_record_def)
    moreover have "on_grid4 (pnl r)"
      by (simp add: r_def skip_record_def on_grid4_def)
    moreover have "synced s'"
      using assms(2) by (simp add: synced_def s' record_trade_def)
    ultimately show ?thesis by auto
  next
    case False
    from assms(1) ws False obtain shares
      where sh: "shares_of (ORDER_SIZE_USD cfg) (ENTRY_PRICE cfg) = Inr shares"
      by (auto simp: market_window_def Let_def split: sum.splits)
    obtain bal' r where st: "settlement cfg ob ws_epoch
        (decide (p_open ob) (p_signal ob) (MIN_MOVE_USD cfg)) shares (balance s) = (bal', r)"
      by (cases "settlement cfg ob ws_epoch
        (decide (p_open ob) (p_signal ob) (MIN_MOVE_USD cfg)) shares (balance s)")
    from market_window_bet [OF ws refl False sh st] assms(1)
    have s': "s' = \<lparr>con = record_trade (set_balance (con s) bal') r, balance = bal'\<rparr>"
      by simp
    have "trades (con s') = trades (con s) @ [r]"
      by (simp add: s' record_trade_def set_balance_def split: option.splits)
    moreover have "balance_after r = balance s'"
      using settlement_fields(1) [OF st] by (simp add: s')
    moreover have "balance s' = round4 (balance s + pnl r)"
      using settlement_fields(2) [OF st] by (simp add: s')
    moreover have "on_grid4 (pnl r)" and "outcome r \<noteq> SKIP"
      using settlement_fields(3,4) [OF st] by simp_all
    moreover have "synced s'"
      using assms(2) by (simp add: synced_def s' record_trade_def set_balance_def)
    ultimately show ?thesis by auto
  qed
qed

lemma startup_synced:
  "\<exists>b. startup cfg d = Inr \<lparr>con = init_db cfg d, balance = b\<rparr> \<and>
       state (init_db cfg d) ''balance'' = Some b \<and>
       b = (case state d ''balance'' of None \<Rightarrow> INITIAL_BALANCE cfg | Some v \<Rightarrow> v)"
  by (simp add: startup_def get_balance_def init_db_def Let_def split: option.splits)


subsection \<open>The decision\<close>




subsection \<open>Settlement\<close>

text \<open>
  C3: a flat close (\<open>close_price = open_price\<close>) is a LOSS whatever the direction of the
  bet, both as the computed outcome and as the outcome written in the window's record.
\<close>

theorem flat_close_is_loss:
  "settle_outcome dir p p = LOSS \<and>
   outcome (snd (settlement cfg (ob\<lparr>p_close := p_open ob\<rparr>) ws_epoch dir shares bal)) = LOSS"
  by (simp add: settle_outcome_def settlement_def Let_def)

subsection \<open>Window alignment\<close>




subsection \<open>Ledger initialisation\<close>

text \<open>
  C8: \<open>init_db\<close> is idempotent. It creates the balance entry, holding the configured
  initial balance, only when there is none; when there is one it changes nothing, so a
  second call (even under another configuration) leaves the result of the first.
\<close>

theorem init_db_idempotent:
  "init_db cfg (init_db cfg d) = init_db cfg d \<and>
   init_db cfg' (init_db cfg d) = init_db cfg d \<and>
   (state d ''balance'' = None \<longrightarrow>
      init_db cfg d = d\<lparr>state := (state d)(''balance'' \<mapsto> INITIAL_BALANCE cfg)\<rparr>) \<and>
   (state d ''balance'' \<noteq> None \<longrightarrow> init_db cfg d = d)"
  by (auto simp add: init_db_def split: option.splits)

theorem init_db_idempotent_witness:
  "state (init_db source_config empty_db) ''balance'' = Some 100 \<and>
   trades (init_db source_config empty_db) = [] \<and>
   init_db (source_config\<lparr>INITIAL_BALANCE := 7\<rparr>) (init_db source_config empty_db) =
     init_db source_config empty_db \<and>
   init_db source_config (set_balance (init_db source_config empty_db) 42) =
     set_balance (init_db source_config empty_db) 42"
proof -
  have none: "state empty_db ''balance'' = None"
    by (simp add: empty_db_def)
  have some: "state (set_balance (init_db source_config empty_db) 42) ''balance'' \<noteq> None"
    by (simp add: set_balance_def init_db_def empty_db_def)
  note first = init_db_idempotent [of source_config empty_db "source_config\<lparr>INITIAL_BALANCE := 7\<rparr>"]
  from first have b: "init_db (source_config\<lparr>INITIAL_BALANCE := 7\<rparr>) (init_db source_config empty_db) =
             init_db source_config empty_db"
    by blast
  from first none have a: "init_db source_config empty_db =
             empty_db\<lparr>state := (state empty_db)(''balance'' \<mapsto> INITIAL_BALANCE source_config)\<rparr>"
    by blast
  from init_db_idempotent [of source_config "set_balance (init_db source_config empty_db) 42"] some
  have c: "init_db source_config (set_balance (init_db source_config empty_db) 42) =
             set_balance (init_db source_config empty_db) 42"
    by blast
  have "state (init_db source_config empty_db) ''balance'' = Some 100"
    and "trades (init_db source_config empty_db) = []"
    unfolding a by (simp_all add: source_config_def empty_db_def)
  with b c show ?thesis by blast
qed

subsection \<open>Persistence of a settlement\<close>

text \<open>
  C1 (as stated, refuted): the settlement of the first example window, interrupted after
  the first of its two committed writes, leaves the new balance 100.8746 in the store and
  no record of the window: neither both changes nor none.
\<close>

theorem settlement_not_atomic_counterexample:
  "\<not> both_or_neither example_db (fst example_settlement) (snd example_settlement)
       (durable_after 1 (settlement_writes (fst example_settlement) (snd example_settlement))
          example_db)"
  by code_simp

text \<open>
  C1 (amended): a settlement is persisted by two separately committed writes, the balance
  first and the record second. With a balance entry in the store, an interruption before
  the first write leaves the store unchanged, an interruption between the two leaves the new
  balance without the record, and after the second write both are there; the record is never
  in the store without the new balance. The loop performs both writes.
\<close>

theorem settlement_two_commits:
  assumes "state d ''balance'' = Some b"
  shows "durable_after 0 (settlement_writes bal r) d = d \<and>
         state (durable_after 1 (settlement_writes bal r) d) ''balance'' = Some bal \<and>
         trades (durable_after 1 (settlement_writes bal r) d) = trades d \<and>
         (2 \<le> k \<longrightarrow>
            state (durable_after k (settlement_writes bal r) d) ''balance'' = Some bal \<and>
            trades (durable_after k (settlement_writes bal r) d) = trades d @ [r]) \<and>
         (trades (durable_after k (settlement_writes bal r) d) = trades d @ [r] \<longrightarrow>
            state (durable_after k (settlement_writes bal r) d) ''balance'' = Some bal) \<and>
         commit_all (settlement_writes bal r) d = durable_after 2 (settlement_writes bal r) d"
proof -
  have k: "k = 0 \<or> k = Suc 0 \<or> (\<exists>j. k = Suc (Suc j))"
    by (cases k) (auto intro: nat.exhaust)
  have one: "(1::nat) = Suc 0" by simp
  show ?thesis
    using assms k unfolding one
    by (auto simp add: durable_after_settlement commit_all_settlement set_balance_def
        record_trade_def numeral_2_eq_2)
qed

theorem settlement_two_commits_witness:
  "state example_db ''balance'' = Some 100 \<and>
   state (durable_after 1 (settlement_writes 7 (snd example_settlement)) example_db) ''balance''
     = Some 7 \<and>
   trades (durable_after 1 (settlement_writes 7 (snd example_settlement)) example_db) = [] \<and>
   state (durable_after 2 (settlement_writes 7 (snd example_settlement)) example_db) ''balance''
     = Some 7 \<and>
   trades (durable_after 2 (settlement_writes 7 (snd example_settlement)) example_db)
     = [snd example_settlement]"
proof -
  have h: "state example_db ''balance'' = Some 100"
    by (simp add: example_db_def init_db_def empty_db_def source_config_def)
  have t: "trades example_db = []"
    by (simp add: example_db_def init_db_def empty_db_def)
  from settlement_two_commits [OF h, of 7 "snd example_settlement" 2] h t
  show ?thesis by simp
qed

subsection \<open>Runs of the loop\<close>

lemma next_window_start_total:
  assumes "WINDOW_SECONDS cfg \<noteq> 0"
  shows "\<exists>ws. next_window_start cfg t = Inr ws"
  using assms by (simp add: next_window_start_def py_fmod_def)

lemma market_window_total:
  assumes "WINDOW_SECONDS cfg \<noteq> 0" and "ENTRY_PRICE cfg \<noteq> 0"
  shows "\<exists>s'. market_window cfg ob s = Inr s'"
proof -
  from next_window_start_total [OF assms(1)] obtain ws
    where ws: "next_window_start cfg (t_loop ob) = Inr ws" by blast
  have sh: "shares_of (ORDER_SIZE_USD cfg) (ENTRY_PRICE cfg) =
              Inr (ORDER_SIZE_USD cfg / ENTRY_PRICE cfg)"
    using assms(2) by (simp add: shares_of_def)
  show ?thesis
    by (simp add: market_window_def ws sh Let_def split: prod.splits)
qed

lemma market_loop_total:
  assumes "WINDOW_SECONDS cfg \<noteq> 0" and "ENTRY_PRICE cfg \<noteq> 0"
  shows "\<exists>s'. market_loop cfg obs s = Inr s'"
proof (induction obs arbitrary: s)
  case Nil
  show ?case by simp
next
  case (Cons ob obs)
  from market_window_total [OF assms] obtain s1 where "market_window cfg ob s = Inr s1"
    by blast
  with Cons.IH [of s1] show ?case by simp
qed

lemma run_total:
  assumes "WINDOW_SECONDS cfg \<noteq> 0" and "ENTRY_PRICE cfg \<noteq> 0"
  shows "\<exists>s. run cfg d obs = Inr s"
proof -
  from startup_synced [of cfg d] obtain s0 where "startup cfg d = Inr s0"
    by blast
  with market_loop_total [OF assms, of obs s0] show ?thesis
    by (simp add: run_def)
qed

lemma trades_init_db: "trades (init_db cfg d) = trades d"
  by (simp add: init_db_def split: option.splits)

lemma market_loop_last:
  assumes "market_loop cfg obs s = Inr s'" and "synced s"
  shows "synced s' \<and> length (trades (con s')) = length (trades (con s)) + length obs \<and>
         (obs \<noteq> [] \<longrightarrow> balance_after (last (trades (con s'))) = balance s')"
  using assms
proof (induction obs arbitrary: s)
  case Nil
  then show ?case by simp
next
  case (Cons ob obs)
  from Cons.prems(1) obtain s1 where s1: "market_window cfg ob s = Inr s1"
    and rest: "market_loop cfg obs s1 = Inr s'"
    by (auto split: sum.splits)
  from market_window_step [OF s1 Cons.prems(2)] obtain r where
    r: "trades (con s1) = trades (con s) @ [r]" "balance_after r = balance s1" "synced s1"
    by blast
  note ih = Cons.IH [OF rest r(3)]
  show ?case
  proof (cases "obs = []")
    case True
    with rest have "s' = s1" by simp
    with r show ?thesis by (simp add: True)
  next
    case False
    with ih r(1) show ?thesis by simp
  qed
qed







subsection \<open>Payoff\<close>




subsection \<open>The first end-to-end scenario\<close>

text \<open>
  C5 (as stated, refuted): under the source's configuration the pnl of the winning bet is not
  0.8752, and 0.8752 is further than half a unit of the fourth decimal place from
  \<open>(10 / 0.92) * 0.08 + 0.005\<close>, so it is not that value rounded to four places.
\<close>

theorem scenario_one_pnl_counterexample:
  "settle_pnl WIN (10 / (92 / 100)) (ORDER_SIZE_USD source_config) (ENTRY_PRICE source_config)
     (MAKER_REBATE source_config) \<noteq> 8752 / 10000 \<and>
   \<not> \<bar>8752 / 10000 - ((10 / (92 / 100)) * (8 / 100) + 5 / 1000 :: rat)\<bar> \<le> 1 / 20000"
  by code_simp

text \<open>
  C5 (amended): under the source's configuration, \<open>open = 50000\<close> and \<open>signal = 50010\<close> give
  the decision UP; with \<open>close = 50050\<close> the outcome is WIN and the pnl is
  \<open>(10 / 0.92) * 0.08 + 0.005\<close> rounded to four places, which is 0.8746; a run of that one
  window from a new database records this pnl and the balance 100.8746.
\<close>

theorem scenario_one:
  "decide 50000 50010 (MIN_MOVE_USD source_config) = UP \<and>
   settle_outcome UP 50000 50050 = WIN \<and>
   shares_of (ORDER_SIZE_USD source_config) (ENTRY_PRICE source_config) = Inr (10 / (92 / 100)) \<and>
   settle_pnl WIN (10 / (92 / 100)) (ORDER_SIZE_USD source_config) (ENTRY_PRICE source_config)
     (MAKER_REBATE source_config) = 8746 / 10000 \<and>
   round4 ((10 / (92 / 100)) * (8 / 100) + 5 / 1000) = 8746 / 10000 \<and>
   \<not> isl (run source_config empty_db [example_win]) \<and>
   map direction_bet (trades (con (projr (run source_config empty_db [example_win])))) = [UP] \<and>
   map outcome (trades (con (projr (run source_config empty_db [example_win])))) = [WIN] \<and>
   map pnl (trades (con (projr (run source_config empty_db [example_win])))) = [8746 / 10000] \<and>
   state (con (projr (run source_config empty_db [example_win]))) ''balance''
     = Some (1008746 / 10000)"
  by code_simp


subsection \<open>Balance continuity\<close>



subsection \<open>Stored balance and last record\<close>

text \<open>
  C10: after every window that a run records (bet or SKIP, from any database), the balance
  in table \<open>state\<close> equals the \<open>balance_after\<close> of the most recently appended record, and so
  does the loop's local balance.
\<close>

theorem stored_balance_is_last_balance_after:
  assumes "run cfg d obs = Inr s" and "obs \<noteq> []"
  shows "trades (con s) \<noteq> [] \<and>
         length (trades (con s)) = length (trades d) + length obs \<and>
         state (con s) ''balance'' = Some (balance_after (last (trades (con s)))) \<and>
         balance s = balance_after (last (trades (con s)))"
proof -
  from startup_synced [of cfg d] obtain b where
    st: "startup cfg d = Inr \<lparr>con = init_db cfg d, balance = b\<rparr>"
    and sb: "state (init_db cfg d) ''balance'' = Some b"
    by blast
  define s0 where "s0 = \<lparr>con = init_db cfg d, balance = b\<rparr>"
  from assms(1) st have loop: "market_loop cfg obs s0 = Inr s"
    by (simp add: run_def s0_def)
  have sy: "synced s0"
    using sb by (simp add: synced_def s0_def)
  from market_loop_last [OF loop sy] assms(2)
  have "synced s" and len: "length (trades (con s)) = length (trades (con s0)) + length obs"
    and "balance_after (last (trades (con s))) = balance s"
    by simp_all
  moreover from len assms(2) have "trades (con s) \<noteq> []"
    by auto
  ultimately show ?thesis
    by (simp add: synced_def s0_def trades_init_db)
qed

theorem stored_balance_is_last_balance_after_witness:
  "\<not> isl (run source_config empty_db example_obs) \<and> example_obs \<noteq> [] \<and>
   state (con (projr (run source_config empty_db example_obs))) ''balance''
     = Some (balance_after (last (trades (con (projr (run source_config empty_db example_obs))))))
   \<and> balance_after (last (trades (con (projr (run source_config empty_db example_obs)))))
     = 908796 / 10000"
proof -
  have ok: "\<not> isl (run source_config empty_db example_obs)"
    by code_simp
  then have r: "run source_config empty_db example_obs =
                  Inr (projr (run source_config empty_db example_obs))"
    by simp
  have n: "example_obs \<noteq> []"
    by (simp add: example_obs_def)
  have v: "balance (projr (run source_config empty_db example_obs)) = 908796 / 10000"
    by code_simp
  from stored_balance_is_last_balance_after [OF r n] ok n v show ?thesis
    by simp
qed

subsection \<open>Signal offset not below the window length\<close>




end
